theory Spec2Isabelle
  imports Main "HOL-Library.Multiset"
begin

section \<open>JavaScript strings, arrays and numbers\<close>

text \<open>
  Strings are modelled as \<open>string\<close>: a character is a code unit below 256 (U+0000 to
  U+00FF). On these, \<open>toLowerCase\<close> and \<open>trim\<close> are those of JavaScript: \<open>toLowerCase\<close> adds
  32 to \<open>A\<close>..\<open>Z\<close> (65..90) and to the upper-case letters U+00C0..U+00D6 and U+00D8..U+00DE
  (192..214, 216..222) and leaves every other code unit alone; \<open>trim\<close> strips TAB, LF, VT,
  FF, CR, SPACE and NO-BREAK SPACE (9..13, 32, 160) from both ends.
\<close>

definition toLowerCase_char :: "char \<Rightarrow> char" where
  "toLowerCase_char c =
     (let n = (of_char c :: nat)
      in if (65 \<le> n \<and> n \<le> 90) \<or> (192 \<le> n \<and> n \<le> 214) \<or> (216 \<le> n \<and> n \<le> 222)
         then char_of (n + 32) else c)"

definition toLowerCase :: "string \<Rightarrow> string" where
  "toLowerCase s = map toLowerCase_char s"

definition isWhiteSpace :: "char \<Rightarrow> bool" where
  "isWhiteSpace c =
     (let n = (of_char c :: nat) in (9 \<le> n \<and> n \<le> 13) \<or> n = 32 \<or> n = 160)"

definition trim :: "string \<Rightarrow> string" where
  "trim s = rev (dropWhile isWhiteSpace (rev (dropWhile isWhiteSpace s)))"

text \<open>\<open>s.split(sep)\<close> for a one-character separator: the empty string gives one empty piece.\<close>

primrec str_split :: "char \<Rightarrow> string \<Rightarrow> string list" where
  "str_split sep [] = [[]]"
| "str_split sep (c # cs) =
     (if c = sep then [] # str_split sep cs
      else (case str_split sep cs of [] \<Rightarrow> [[c]] | w # ws \<Rightarrow> (c # w) # ws))"

primrec startsWith :: "string \<Rightarrow> string \<Rightarrow> bool" where
  "startsWith s [] = True"
| "startsWith s (k # ks) = (case s of [] \<Rightarrow> False | c # cs \<Rightarrow> c = k \<and> startsWith cs ks)"

text \<open>\<open>s.includes(k)\<close>: \<open>k\<close> occurs in \<open>s\<close> as a contiguous substring.\<close>

primrec str_includes :: "string \<Rightarrow> string \<Rightarrow> bool" where
  "str_includes [] k = (k = [])"
| "str_includes (c # cs) k = (startsWith (c # cs) k \<or> str_includes cs k)"

text \<open>
  Truthiness of an optional string (\<open>if (keywords)\<close>, \<open>post.location && ...\<close>): \<open>undefined\<close>,
  \<open>null\<close> and the empty string are falsy, every other string is truthy.
\<close>

definition truthy :: "string option \<Rightarrow> bool" where
  "truthy v = (case v of None \<Rightarrow> False | Some s \<Rightarrow> s \<noteq> [])"

text \<open>
  A JavaScript number that results from integer arithmetic on table lookups: \<open>None\<close> is
  \<open>NaN\<close> (a lookup of a key that the table does not have gives \<open>undefined\<close>, and
  \<open>undefined - n\<close> is \<open>NaN\<close>).
\<close>

type_synonym js_number = "int option"

definition js_sub :: "js_number \<Rightarrow> js_number \<Rightarrow> js_number" where
  "js_sub a b = (case (a, b) of (Some x, Some y) \<Rightarrow> Some (x - y) | _ \<Rightarrow> None)"

text \<open>
  \<open>Array.prototype.sort(comparefn)\<close>: the sort is stable, \<open>a\<close> stays before \<open>b\<close> unless
  \<open>comparefn(a, b) > 0\<close>, and a \<open>NaN\<close> result counts as \<open>0\<close>. For a consistent comparator
  the result is the one of a stable insertion sort.
\<close>

definition sort_value :: "js_number \<Rightarrow> int" where
  "sort_value v = (case v of None \<Rightarrow> 0 | Some n \<Rightarrow> n)"

primrec insort_cmp :: "('a \<Rightarrow> 'a \<Rightarrow> js_number) \<Rightarrow> 'a \<Rightarrow> 'a list \<Rightarrow> 'a list" where
  "insort_cmp cmp x [] = [x]"
| "insort_cmp cmp x (y # ys) =
     (if sort_value (cmp x y) \<le> 0 then x # y # ys else y # insort_cmp cmp x ys)"

definition sort_cmp :: "('a \<Rightarrow> 'a \<Rightarrow> js_number) \<Rightarrow> 'a list \<Rightarrow> 'a list" where
  "sort_cmp cmp xs = foldr (insort_cmp cmp) xs []"

text \<open>Errors are values: a rejected promise or a thrown exception is \<open>Inl\<close>.\<close>

datatype error = Error string

type_synonym 'a result = "error + 'a"

definition try_catch :: "'a result \<Rightarrow> (error \<Rightarrow> 'a result) \<Rightarrow> 'a result" where
  "try_catch body handler = (case body of Inl e \<Rightarrow> handler e | Inr v \<Rightarrow> Inr v)"

section \<open>Social media service\<close>

record social_post =
  post_id :: string
  post :: string
  user :: string
  timestamp :: int
  priority :: string
  verified :: bool
  location :: "string option"
  hashtags :: "string list"

record processed_post = social_post +
  processed_at :: int
  relevance_score :: int

text \<open>
  \<open>mockSocialMediaData\<close>; \<open>t0\<close> is \<open>Date.now()\<close> in milliseconds when the module is loaded,
  timestamps are milliseconds since the epoch.
\<close>

definition mockSocialMediaData :: "int \<Rightarrow> social_post list" where
  "mockSocialMediaData t0 = [
     \<lparr>post_id = ''1'',
      post = ''#floodrelief Need food and water in Lower Manhattan. Families stranded!'',
      user = ''citizen_helper1'', timestamp = t0 - 2 * 60 * 60 * 1000, priority = ''high'',
      verified = False, location = Some ''Lower Manhattan, NYC'',
      hashtags = [''#floodrelief'', ''#emergency'']\<rparr>,
     \<lparr>post_id = ''2'',
      post = ''Offering shelter in Brooklyn Heights for flood victims. Contact me! #disasterhelp'',
      user = ''brooklyn_resident'', timestamp = t0 - 1 * 60 * 60 * 1000, priority = ''medium'',
      verified = False, location = Some ''Brooklyn Heights, NYC'',
      hashtags = [''#disasterhelp'', ''#shelter'']\<rparr>,
     \<lparr>post_id = ''3'',
      post = ''URGENT: Medical supplies needed at evacuation center on 42nd Street #emergencyhelp'',
      user = ''medical_volunteer'', timestamp = t0 - 30 * 60 * 1000, priority = ''urgent'',
      verified = False, location = Some ''42nd Street, NYC'',
      hashtags = [''#emergencyhelp'', ''#medical'']\<rparr>,
     \<lparr>post_id = ''4'',
      post = ''Earthquake felt in downtown area. Buildings shaking! #earthquake #help'',
      user = ''downtown_witness'', timestamp = t0 - 15 * 60 * 1000, priority = ''urgent'',
      verified = False, location = Some ''Downtown'',
      hashtags = [''#earthquake'', ''#help'']\<rparr>,
     \<lparr>post_id = ''5'',
      post = ''Fire spreading near residential area. Evacuations needed! #fire #evacuate'',
      user = ''safety_alert'', timestamp = t0 - 45 * 60 * 1000, priority = ''urgent'',
      verified = False, location = Some ''Residential District'',
      hashtags = [''#fire'', ''#evacuate'']\<rparr>,
     \<lparr>post_id = ''6'',
      post = ''Have extra blankets and warm clothes for disaster victims #donate #help'',
      user = ''community_helper'', timestamp = t0 - 3 * 60 * 60 * 1000, priority = ''low'',
      verified = False, location = Some ''Community Center'',
      hashtags = [''#donate'', ''#help'']\<rparr>]"

text \<open>\<open>keywords.toLowerCase().split(',').map(k => k.trim())\<close>\<close>

definition keywordArray :: "string \<Rightarrow> string list" where
  "keywordArray keywords = map trim (str_split CHR '','' (toLowerCase keywords))"

text \<open>The body of the \<open>forEach\<close> callback of \<open>calculateRelevanceScore\<close>, on the running score.\<close>

definition scoreKeyword :: "social_post \<Rightarrow> string \<Rightarrow> int \<Rightarrow> int" where
  "scoreKeyword p keyword score =
     (let postText = toLowerCase (post p);
          score1 = (if str_includes postText keyword then score + 3 else score);
          score2 = (if list_ex (\<lambda>hashtag. str_includes (toLowerCase hashtag) keyword) (hashtags p)
                    then score1 + 2 else score1)
      in (case location p of
            None \<Rightarrow> score2
          | Some l \<Rightarrow> if l \<noteq> [] \<and> str_includes (toLowerCase l) keyword then score2 + 1 else score2))"

definition calculateRelevanceScore :: "social_post \<Rightarrow> string option \<Rightarrow> int" where
  "calculateRelevanceScore p keywords =
     (case keywords of
        None \<Rightarrow> 1
      | Some kw \<Rightarrow> if kw = [] then 1 else fold (scoreKeyword p) (keywordArray kw) 0)"

text \<open>The priority chosen by the \<open>if\<close>/\<open>else if\<close> chain of \<open>processSocialMediaData\<close>.\<close>

definition assignPriority :: "string \<Rightarrow> string" where
  "assignPriority postText =
     (if str_includes postText ''urgent'' \<or> str_includes postText ''sos'' \<or>
         str_includes postText ''emergency'' \<or> str_includes postText ''evacuate''
      then ''urgent''
      else if str_includes postText ''need'' \<or> str_includes postText ''help'' \<or>
              str_includes postText ''stranded'' \<or> str_includes postText ''trapped''
      then ''high''
      else if str_includes postText ''offering'' \<or> str_includes postText ''volunteer'' \<or>
              str_includes postText ''shelter'' \<or> str_includes postText ''donate''
      then ''medium''
      else ''low'')"

text \<open>
  The \<open>map\<close> callback: \<open>{...post, priority, processed_at, relevance_score}\<close>; \<open>now\<close> is the
  clock read by \<open>new Date()\<close>.
\<close>

definition processPost :: "int \<Rightarrow> string option \<Rightarrow> social_post \<Rightarrow> processed_post" where
  "processPost now keywords p =
     \<lparr>post_id = post_id p, post = post p, user = user p, timestamp = timestamp p,
      priority = assignPriority (toLowerCase (post p)), verified = verified p,
      location = location p, hashtags = hashtags p,
      processed_at = now, relevance_score = calculateRelevanceScore p keywords\<rparr>"

definition priorityOrder :: "string \<Rightarrow> js_number" where
  "priorityOrder k =
     (if k = ''urgent'' then Some 3 else if k = ''high'' then Some 2
      else if k = ''medium'' then Some 1 else if k = ''low'' then Some 0 else None)"

definition comparePosts :: "processed_post \<Rightarrow> processed_post \<Rightarrow> js_number" where
  "comparePosts a b =
     (let priorityDiff = js_sub (priorityOrder (priority b)) (priorityOrder (priority a))
      in if priorityDiff \<noteq> Some 0 then priorityDiff
         else Some (relevance_score b - relevance_score a))"

definition processSocialMediaData :: "int \<Rightarrow> social_post list \<Rightarrow> string option \<Rightarrow> processed_post list" where
  "processSocialMediaData now data keywords =
     sort_cmp comparePosts (map (processPost now keywords) data)"

text \<open>
  \<open>fetchMockSocialMediaData\<close>: the mock posts, narrowed by the keywords and by the disaster
  type when they are given. The \<open>catch\<close> block rethrows.
\<close>

definition fetchMockSocialMediaData :: "int \<Rightarrow> string option \<Rightarrow> string option \<Rightarrow> social_post list result" where
  "fetchMockSocialMediaData t0 keywords disasterType =
     try_catch
       (let filteredData = mockSocialMediaData t0;
            filteredData1 =
              (case keywords of
                 None \<Rightarrow> filteredData
               | Some kw \<Rightarrow>
                   if kw = [] then filteredData
                   else filter (\<lambda>p. list_ex (\<lambda>keyword.
                            str_includes (toLowerCase (post p)) keyword \<or>
                            list_ex (\<lambda>hashtag. str_includes (toLowerCase hashtag) keyword) (hashtags p))
                          (keywordArray kw)) filteredData);
            filteredData2 =
              (case disasterType of
                 None \<Rightarrow> filteredData1
               | Some dt \<Rightarrow>
                   if dt = [] then filteredData1
                   else filter (\<lambda>p. str_includes (toLowerCase (post p)) (toLowerCase dt) \<or>
                            list_ex (\<lambda>hashtag. str_includes (toLowerCase hashtag) (toLowerCase dt))
                              (hashtags p)) filteredData1)
        in Inr filteredData2)
       (\<lambda>error. Inl error)"

text \<open>The provider stubs: \<open>count\<close> (here \<open>cnt\<close>) is only used by the request that is commented out.\<close>

definition fetchTwitterData :: "int \<Rightarrow> string option \<Rightarrow> int \<Rightarrow> social_post list result" where
  "fetchTwitterData t0 query cnt = try_catch (fetchMockSocialMediaData t0 query None) (\<lambda>error. Inl error)"

definition fetchBlueskyData :: "int \<Rightarrow> string option \<Rightarrow> int \<Rightarrow> social_post list result" where
  "fetchBlueskyData t0 query cnt = try_catch (fetchMockSocialMediaData t0 query None) (\<lambda>error. Inl error)"

text \<open>\<open>process.env\<close>: whether each provider's credential is configured.\<close>

record environment =
  TWITTER_BEARER_TOKEN :: bool
  BLUESKY_ACCESS_TOKEN :: bool

definition bind_result :: "'a result \<Rightarrow> ('a \<Rightarrow> 'b result) \<Rightarrow> 'b result" where
  "bind_result r f = (case r of Inl e \<Rightarrow> Inl e | Inr v \<Rightarrow> f v)"

definition fetchSocialMediaData ::
  "environment \<Rightarrow> int \<Rightarrow> int \<Rightarrow> string option \<Rightarrow> string option \<Rightarrow> int \<Rightarrow> processed_post list result" where
  "fetchSocialMediaData env t0 now keywords disasterType limit =
     try_catch
       (let data0 = [];
            data1 = (if TWITTER_BEARER_TOKEN env
                     then (case fetchTwitterData t0 keywords limit of Inr d \<Rightarrow> d | Inl error \<Rightarrow> data0)
                     else data0);
            data2 = (if data1 = [] \<and> BLUESKY_ACCESS_TOKEN env
                     then (case fetchBlueskyData t0 keywords limit of Inr d \<Rightarrow> d | Inl error \<Rightarrow> data1)
                     else data1)
        in bind_result
             (if data2 = [] then fetchMockSocialMediaData t0 keywords disasterType else Inr data2)
             (\<lambda>data3. Inr (processSocialMediaData now data3 keywords)))
       (\<lambda>error. Inr (processSocialMediaData now (mockSocialMediaData t0) keywords))"

section \<open>Official updates service\<close>

record update =
  uid :: string
  source :: string
  title :: string
  content :: string
  url :: string
  published_at :: int
  severity :: "string option"
  category :: "string option"
  contact :: "string option"

definition mockOfficialUpdates :: "int \<Rightarrow> update list" where
  "mockOfficialUpdates t0 = [
     \<lparr>uid = ''1'', source = ''FEMA'', title = ''Emergency Shelter Locations Updated'',
      content = ''New emergency shelters have been opened in Manhattan and Brooklyn. Capacity for 500+ people available.'',
      url = ''https://fema.gov/disaster-updates'', published_at = t0 - 4 * 60 * 60 * 1000,
      severity = Some ''high'', category = Some ''shelter'', contact = Some ''1-800-621-3362''\<rparr>,
     \<lparr>uid = ''2'', source = ''NYC Emergency Management'', title = ''Water Distribution Points Active'',
      content = ''Water distribution is now active at Central Park and Prospect Park locations from 8 AM to 6 PM.'',
      url = ''https://nyc.gov/emergency'', published_at = t0 - 2 * 60 * 60 * 1000,
      severity = Some ''medium'', category = Some ''supplies'', contact = Some ''311''\<rparr>,
     \<lparr>uid = ''3'', source = ''Red Cross'', title = ''Volunteer Registration Open'',
      content = ''Red Cross is accepting volunteer registrations for disaster relief efforts. Training provided.'',
      url = ''https://redcross.org/volunteer'', published_at = t0 - 1 * 60 * 60 * 1000,
      severity = Some ''low'', category = Some ''volunteer'', contact = Some ''1-800-733-2767''\<rparr>,
     \<lparr>uid = ''4'', source = ''National Weather Service'', title = ''Severe Weather Alert Extended'',
      content = ''Severe weather conditions expected to continue through tomorrow evening. Stay indoors.'',
      url = ''https://weather.gov/alerts'', published_at = t0 - 30 * 60 * 1000,
      severity = Some ''high'', category = Some ''weather'', contact = Some ''weather.gov''\<rparr>,
     \<lparr>uid = ''5'', source = ''Salvation Army'', title = ''Mobile Food Units Deployed'',
      content = ''Mobile food units are serving hot meals in affected areas. Check locations on our website.'',
      url = ''https://salvationarmy.org/disaster-relief'', published_at = t0 - 6 * 60 * 60 * 1000,
      severity = Some ''medium'', category = Some ''food'', contact = Some ''1-800-725-2769''\<rparr>]"

text \<open>
  The four scrapers. The live request of each is commented out in the source, so the
  \<open>try\<close> block logs and returns the source's mock records; \<open>raised\<close> is an exception thrown
  inside the \<open>try\<close> block (\<open>None\<close> when the block runs to its \<open>return\<close>), which the \<open>catch\<close>
  block answers with the same mock records.
\<close>

definition scrapeFEMAUpdates :: "error option \<Rightarrow> int \<Rightarrow> update list result" where
  "scrapeFEMAUpdates raised t0 =
     try_catch
       (case raised of Some e \<Rightarrow> Inl e
        | None \<Rightarrow> Inr (filter (\<lambda>u. source u = ''FEMA'') (mockOfficialUpdates t0)))
       (\<lambda>error. Inr (filter (\<lambda>u. source u = ''FEMA'') (mockOfficialUpdates t0)))"

definition scrapeRedCrossUpdates :: "error option \<Rightarrow> int \<Rightarrow> update list result" where
  "scrapeRedCrossUpdates raised t0 =
     try_catch
       (case raised of Some e \<Rightarrow> Inl e
        | None \<Rightarrow> Inr (filter (\<lambda>u. source u = ''Red Cross'') (mockOfficialUpdates t0)))
       (\<lambda>error. Inr (filter (\<lambda>u. source u = ''Red Cross'') (mockOfficialUpdates t0)))"

definition scrapeNYCEmergencyUpdates :: "error option \<Rightarrow> int \<Rightarrow> update list result" where
  "scrapeNYCEmergencyUpdates raised t0 =
     try_catch
       (case raised of Some e \<Rightarrow> Inl e
        | None \<Rightarrow> Inr (filter (\<lambda>u. source u = ''NYC Emergency Management'') (mockOfficialUpdates t0)))
       (\<lambda>error. Inr (filter (\<lambda>u. source u = ''NYC Emergency Management'') (mockOfficialUpdates t0)))"

definition scrapeWeatherServiceUpdates :: "error option \<Rightarrow> int \<Rightarrow> update list result" where
  "scrapeWeatherServiceUpdates raised t0 =
     try_catch
       (case raised of Some e \<Rightarrow> Inl e
        | None \<Rightarrow> Inr (filter (\<lambda>u. source u = ''National Weather Service'') (mockOfficialUpdates t0)))
       (\<lambda>error. Inr (filter (\<lambda>u. source u = ''National Weather Service'') (mockOfficialUpdates t0)))"

text \<open>What is thrown inside each scraper's \<open>try\<close> block during one call of the fetcher.\<close>

record scrape_faults =
  fema_raises :: "error option"
  redcross_raises :: "error option"
  nyc_raises :: "error option"
  weather_raises :: "error option"

definition severityOrder :: "string option \<Rightarrow> js_number" where
  "severityOrder k =
     (case k of
        None \<Rightarrow> None
      | Some s \<Rightarrow> if s = ''high'' then Some 3 else if s = ''medium'' then Some 2
                  else if s = ''low'' then Some 1 else None)"

text \<open>The comparator of the sort inside \<open>fetchOfficialUpdates\<close>.\<close>

definition compareUpdates :: "update \<Rightarrow> update \<Rightarrow> js_number" where
  "compareUpdates a b =
     (let severityDiff = js_sub (severityOrder (severity b)) (severityOrder (severity a))
      in if severityDiff \<noteq> Some 0 then severityDiff
         else Some (published_at b - published_at a))"

text \<open>\<open>if (cond) { const us = await scrape(); allUpdates.push(...us) }\<close>\<close>

definition pushWhen :: "bool \<Rightarrow> update list result \<Rightarrow> update list \<Rightarrow> update list result" where
  "pushWhen cond scraped allUpdates =
     (if cond then bind_result scraped (\<lambda>us. Inr (allUpdates @ us)) else Inr allUpdates)"

definition fetchOfficialUpdates :: "scrape_faults \<Rightarrow> int \<Rightarrow> string list \<Rightarrow> update list result" where
  "fetchOfficialUpdates faults t0 sources =
     try_catch
       (let shouldScrapeAll = (''all'' \<in> set sources) in
        bind_result (pushWhen (shouldScrapeAll \<or> ''fema'' \<in> set sources)
                       (scrapeFEMAUpdates (fema_raises faults) t0) [])
        (\<lambda>allUpdates1.
        bind_result (pushWhen (shouldScrapeAll \<or> ''redcross'' \<in> set sources)
                       (scrapeRedCrossUpdates (redcross_raises faults) t0) allUpdates1)
        (\<lambda>allUpdates2.
        bind_result (pushWhen (shouldScrapeAll \<or> ''nyc'' \<in> set sources)
                       (scrapeNYCEmergencyUpdates (nyc_raises faults) t0) allUpdates2)
        (\<lambda>allUpdates3.
        bind_result (pushWhen (shouldScrapeAll \<or> ''weather'' \<in> set sources)
                       (scrapeWeatherServiceUpdates (weather_raises faults) t0) allUpdates3)
        (\<lambda>allUpdates.
           if allUpdates = [] then Inr (mockOfficialUpdates t0)
           else Inr (sort_cmp compareUpdates allUpdates))))))
       (\<lambda>error. Inr (mockOfficialUpdates t0))"

text \<open>\<open>update.category && update.category.toLowerCase() === category.toLowerCase()\<close>\<close>

definition fieldMatches :: "string option \<Rightarrow> string \<Rightarrow> bool" where
  "fieldMatches field wanted =
     (case field of None \<Rightarrow> False | Some v \<Rightarrow> v \<noteq> [] \<and> toLowerCase v = toLowerCase wanted)"

definition filterOfficialUpdates :: "update list \<Rightarrow> string option \<Rightarrow> string option \<Rightarrow> update list" where
  "filterOfficialUpdates updates category_wanted severity_wanted =
     (let filtered = updates;
          filtered1 = (case category_wanted of
                         None \<Rightarrow> filtered
                       | Some c \<Rightarrow> if c = [] then filtered
                                   else filter (\<lambda>u. fieldMatches (category u) c) filtered);
          filtered2 = (case severity_wanted of
                         None \<Rightarrow> filtered1
                       | Some s \<Rightarrow> if s = [] then filtered1
                                   else filter (\<lambda>u. fieldMatches (severity u) s) filtered1)
      in filtered2)"

definition searchOfficialUpdates :: "update list \<Rightarrow> string option \<Rightarrow> update list" where
  "searchOfficialUpdates updates keywords =
     (case keywords of
        None \<Rightarrow> updates
      | Some kw \<Rightarrow>
          if kw = [] then updates
          else filter (\<lambda>u. let searchText = toLowerCase (title u @ '' '' @ content u)
                           in list_ex (\<lambda>keyword. str_includes searchText keyword) (keywordArray kw))
                 updates)"

section \<open>Controllers\<close>

record filters_applied_fields =
  fa_category :: "string option"
  fa_severity :: "string option"
  fa_keywords :: "string option"

record official_envelope =
  oe_disaster_id :: string
  total_updates :: nat
  sources_checked :: "string list"
  filters_applied :: filters_applied_fields
  oe_last_updated :: int
  updates :: "update list"

record social_envelope =
  se_disaster_id :: string
  total_posts :: nat
  keywords_used :: "string option"
  se_disaster_type :: "string option"
  se_last_updated :: int
  posts :: "processed_post list"

text \<open>What \<open>res.json\<close> is given: one of the envelopes, a bare array of posts, or an error.\<close>

datatype body =
  OfficialEnvelope official_envelope
  | SocialEnvelope social_envelope
  | PostsArray "processed_post list"
  | ErrorBody string "string option"

record response =
  res_status :: nat
  res_body :: body

text \<open>
  Modelled from the spec: the cache gateway (\<open>middleware/cache\<close> is not among the sources),
  \<open>get(key) \<rightarrow> value | absent\<close> and \<open>set(key, value)\<close>, read-your-last-write, here without
  expiry (two calls within the time to live).
\<close>

type_synonym cache_store = "string \<Rightarrow> body option"

definition getCachedData :: "cache_store \<Rightarrow> string \<Rightarrow> body option" where
  "getCachedData store key = store key"

definition setCachedData :: "cache_store \<Rightarrow> string \<Rightarrow> body \<Rightarrow> cache_store" where
  "setCachedData store key v = store(key \<mapsto> v)"

text \<open>The state the controllers act on: the cache and the events given to \<open>req.io.emit\<close>.\<close>

record app_state =
  cache :: cache_store
  emitted :: "(string \<times> string \<times> processed_post list) list"

text \<open>\<open>v || d\<close> inside a template string, and \<open>v || null\<close>.\<close>

definition or_default :: "string option \<Rightarrow> string \<Rightarrow> string" where
  "or_default v d = (case v of None \<Rightarrow> d | Some s \<Rightarrow> if s = [] then d else s)"

definition or_null :: "string option \<Rightarrow> string option" where
  "or_null v = (case v of None \<Rightarrow> None | Some s \<Rightarrow> if s = [] then None else Some s)"

text \<open>
  A request: the route parameter \<open>id\<close> and the query. \<open>limit\<close> is the integer that the
  query string denotes, \<open>None\<close> when the parameter is absent.
\<close>

record social_request =
  sr_id :: string
  sr_keywords :: "string option"
  sr_limit :: "int option"
  sr_disaster_type :: "string option"

definition getSocialMediaReports ::
  "environment \<Rightarrow> int \<Rightarrow> int \<Rightarrow> app_state \<Rightarrow> social_request \<Rightarrow> app_state \<times> response" where
  "getSocialMediaReports env t0 now st req =
     (let disaster_id = sr_id req;
          keywords = sr_keywords req;
          limit = (case sr_limit req of None \<Rightarrow> 20 | Some l \<Rightarrow> l);
          disaster_type = sr_disaster_type req;
          cacheKey = ''social_media_'' @ disaster_id @ ''_'' @ or_default keywords ''all'' @
                     ''_'' @ or_default disaster_type ''general''
      in case getCachedData (cache st) cacheKey of
           Some cachedData \<Rightarrow> (st, \<lparr>res_status = 200, res_body = cachedData\<rparr>)
         | None \<Rightarrow>
             (case fetchSocialMediaData env t0 now keywords disaster_type limit of
                Inl error \<Rightarrow>
                  (st, \<lparr>res_status = 500,
                        res_body = ErrorBody ''Failed to fetch social media reports'' None\<rparr>)
              | Inr socialMediaData \<Rightarrow>
                  (st\<lparr>cache := setCachedData (cache st) cacheKey (PostsArray socialMediaData),
                      emitted := emitted st @ [(''social_media_updated'', disaster_id, socialMediaData)]\<rparr>,
                   \<lparr>res_status = 200,
                    res_body = SocialEnvelope
                      \<lparr>se_disaster_id = disaster_id,
                       total_posts = length socialMediaData,
                       keywords_used = keywords,
                       se_disaster_type = disaster_type,
                       se_last_updated = now,
                       posts = socialMediaData\<rparr>\<rparr>)))"

record official_request =
  or_id :: string
  or_sources :: "string option"
  or_category :: "string option"
  or_severity :: "string option"
  or_keywords :: "string option"
  or_limit :: "int option"

definition getOfficialUpdates ::
  "scrape_faults \<Rightarrow> int \<Rightarrow> int \<Rightarrow> app_state \<Rightarrow> official_request \<Rightarrow> app_state \<times> response" where
  "getOfficialUpdates faults t0 now st req =
     (let disaster_id = or_id req;
          sources = (case or_sources req of None \<Rightarrow> ''all'' | Some s \<Rightarrow> s);
          category_wanted = or_category req;
          severity_wanted = or_severity req;
          keywords = or_keywords req;
          limit = (case or_limit req of None \<Rightarrow> 50 | Some l \<Rightarrow> l);
          cacheKey = ''official_updates_'' @ disaster_id @ ''_'' @ sources @ ''_'' @
                     or_default category_wanted ''all'' @ ''_'' @ or_default severity_wanted ''all'' @
                     ''_'' @ or_default keywords ''none''
      in case getCachedData (cache st) cacheKey of
           Some cachedData \<Rightarrow> (st, \<lparr>res_status = 200, res_body = cachedData\<rparr>)
         | None \<Rightarrow>
             (let sourceArray = (if sources = ''all'' then [''all'']
                                 else map trim (str_split CHR '','' sources))
              in case fetchOfficialUpdates faults t0 sourceArray of
                   Inl (Error message) \<Rightarrow>
                     (st, \<lparr>res_status = 500,
                           res_body = ErrorBody ''Failed to fetch official updates'' (Some message)\<rparr>)
                 | Inr officialUpdates \<Rightarrow>
                     (let officialUpdates1 =
                            (if truthy category_wanted
                             then filterOfficialUpdates officialUpdates category_wanted None
                             else officialUpdates);
                          officialUpdates2 =
                            (if truthy severity_wanted
                             then filterOfficialUpdates officialUpdates1 None severity_wanted
                             else officialUpdates1);
                          officialUpdates3 =
                            (if truthy keywords
                             then searchOfficialUpdates officialUpdates2 keywords
                             else officialUpdates2);
                          officialUpdates4 =
                            (if limit > 0 then take (nat limit) officialUpdates3
                             else officialUpdates3);
                          response_envelope = OfficialEnvelope
                            \<lparr>oe_disaster_id = disaster_id,
                             total_updates = length officialUpdates4,
                             sources_checked = sourceArray,
                             filters_applied =
                               \<lparr>fa_category = or_null category_wanted,
                                fa_severity = or_null severity_wanted,
                                fa_keywords = or_null keywords\<rparr>,
                             oe_last_updated = now,
                             updates = officialUpdates4\<rparr>
                      in (st\<lparr>cache := setCachedData (cache st) cacheKey response_envelope\<rparr>,
                          \<lparr>res_status = 200, res_body = response_envelope\<rparr>))))"

section \<open>The specification's wording\<close>

text \<open>\<open>k\<close> is a substring of \<open>s\<close>.\<close>

definition is_substring :: "string \<Rightarrow> string \<Rightarrow> bool" where
  "is_substring k s = (\<exists>pre suf. s = pre @ k @ suf)"

text \<open>The comma-separated, trimmed, lower-cased terms of a keywords string.\<close>

definition spec_terms :: "string \<Rightarrow> string list" where
  "spec_terms keywords = map (\<lambda>t. toLowerCase (trim t)) (str_split CHR '','' keywords)"

definition urgent_set :: "string list" where
  "urgent_set = [''urgent'', ''sos'', ''emergency'', ''evacuate'']"

definition high_set :: "string list" where
  "high_set = [''need'', ''help'', ''stranded'', ''trapped'']"

definition medium_set :: "string list" where
  "medium_set = [''offering'', ''volunteer'', ''shelter'', ''donate'']"

text \<open>First match wins over the three keyword sets, on the lower-cased post text.\<close>

definition spec_priority :: "string \<Rightarrow> string" where
  "spec_priority text =
     (if \<exists>k \<in> set urgent_set. is_substring k (toLowerCase text) then ''urgent''
      else if \<exists>k \<in> set high_set. is_substring k (toLowerCase text) then ''high''
      else if \<exists>k \<in> set medium_set. is_substring k (toLowerCase text) then ''medium''
      else ''low'')"

text \<open>
  What one term adds to the relevance score: 3 for the post text, 2 for any hashtag, 1 for
  the location when the post has one (a non-empty string).
\<close>

definition spec_term_score :: "social_post \<Rightarrow> string \<Rightarrow> int" where
  "spec_term_score p t =
     (if is_substring t (toLowerCase (post p)) then 3 else 0) +
     (if \<exists>h \<in> set (hashtags p). is_substring t (toLowerCase h) then 2 else 0) +
     (if \<exists>l. location p = Some l \<and> l \<noteq> [] \<and> is_substring t (toLowerCase l) then 1 else 0)"

text \<open>A filter value is given when it is a non-empty string.\<close>

definition given :: "string option \<Rightarrow> bool" where
  "given v = (\<exists>s. v = Some s \<and> s \<noteq> [])"

text \<open>The record's field equals the requested value, case-insensitively.\<close>

definition equals_ignoring_case :: "string option \<Rightarrow> string option \<Rightarrow> bool" where
  "equals_ignoring_case field wanted =
     (\<exists>a b. field = Some a \<and> wanted = Some b \<and> toLowerCase a = toLowerCase b)"

text \<open>The records the fetcher aggregates, source by source, before it orders them.\<close>

definition aggregated :: "int \<Rightarrow> string list \<Rightarrow> update list" where
  "aggregated t0 sources =
     concat (map (\<lambda>(sid, name).
                    if ''all'' \<in> set sources \<or> sid \<in> set sources
                    then filter (\<lambda>u. source u = name) (mockOfficialUpdates t0) else [])
               [(''fema'', ''FEMA''), (''redcross'', ''Red Cross''),
                (''nyc'', ''NYC Emergency Management''),
                (''weather'', ''National Weather Service'')])"

text \<open>Severity rank high 3, medium 2, low 1; higher severity first, then newer first.\<close>

definition severity_rank :: "update \<Rightarrow> nat" where
  "severity_rank u =
     (if severity u = Some ''high'' then 3 else if severity u = Some ''medium'' then 2
      else if severity u = Some ''low'' then 1 else 0)"

definition ranked_before :: "update \<Rightarrow> update \<Rightarrow> bool" where
  "ranked_before a b =
     (severity_rank a > severity_rank b \<or>
      (severity_rank a = severity_rank b \<and> published_at a \<ge> published_at b))"

text \<open>The severities that the table \<open>severityOrder\<close> knows.\<close>

definition known_severity :: "update \<Rightarrow> bool" where
  "known_severity u =
     (severity u = Some ''high'' \<or> severity u = Some ''medium'' \<or> severity u = Some ''low'')"

section \<open>Facts about strings\<close>

lemma startsWith_iff: "startsWith s k \<longleftrightarrow> (\<exists>suf. s = k @ suf)"
  by (induction k arbitrary: s) (auto split: list.splits)

lemma str_includes_iff: "str_includes s k \<longleftrightarrow> (\<exists>pre suf. s = pre @ k @ suf)"
proof (induction s)
  case Nil
  then show ?case by auto
next
  case (Cons c cs)
  show ?case
  proof
    assume "str_includes (c # cs) k"
    then consider "startsWith (c # cs) k" | "str_includes cs k" by auto
    then show "\<exists>pre suf. c # cs = pre @ k @ suf"
    proof cases
      case 1
      then obtain suf where "c # cs = k @ suf" by (auto simp: startsWith_iff)
      then have "c # cs = [] @ k @ suf" by simp
      then show ?thesis by blast
    next
      case 2
      then obtain pre suf where "cs = pre @ k @ suf" using Cons.IH by auto
      then have "c # cs = (c # pre) @ k @ suf" by simp
      then show ?thesis by blast
    qed
  next
    assume "\<exists>pre suf. c # cs = pre @ k @ suf"
    then obtain pre suf where eq: "c # cs = pre @ k @ suf" by auto
    show "str_includes (c # cs) k"
    proof (cases pre)
      case Nil
      with eq have "startsWith (c # cs) k" by (auto simp: startsWith_iff)
      then show ?thesis by simp
    next
      case (Cons a pre')
      with eq have "cs = pre' @ k @ suf" by simp
      then have "str_includes cs k" using Cons.IH by blast
      then show ?thesis by simp
    qed
  qed
qed

lemma is_substring_includes: "is_substring k s = str_includes s k"
  by (simp add: is_substring_def str_includes_iff)

lemma of_char_toLowerCase_char:
  "of_char (toLowerCase_char c) =
     (let n = (of_char c :: nat)
      in if (65 \<le> n \<and> n \<le> 90) \<or> (192 \<le> n \<and> n \<le> 214) \<or> (216 \<le> n \<and> n \<le> 222)
         then n + 32 else n)"
  by (auto simp: toLowerCase_char_def Let_def)

lemma latin1_examples:
  "toLowerCase (CHR 0xC9 # ''VAC'') = CHR 0xE9 # ''vac''"
  "trim (CHR 0xA0 # ''water '') = ''water''"
  "toLowerCase [CHR 0xD7, CHR 0xDF, CHR 0xFF] = [CHR 0xD7, CHR 0xDF, CHR 0xFF]"
  by code_simp+

lemma toLowerCase_char_comma: "toLowerCase_char c = CHR '','' \<longleftrightarrow> c = CHR '',''"
proof -
  have "toLowerCase_char c = CHR '','' \<longleftrightarrow>
        (of_char (toLowerCase_char c) :: nat) = of_char CHR '',''"
    by (metis of_char_eq_iff)
  also have "\<dots> \<longleftrightarrow> (of_char c :: nat) = of_char CHR '',''"
    by (auto simp: of_char_toLowerCase_char Let_def)
  also have "\<dots> \<longleftrightarrow> c = CHR '',''"
    by (metis of_char_eq_iff)
  finally show ?thesis .
qed

lemma isWhiteSpace_toLowerCase_char: "isWhiteSpace (toLowerCase_char c) = isWhiteSpace c"
  by (auto simp: isWhiteSpace_def of_char_toLowerCase_char Let_def)

lemma str_split_nonempty: "str_split sep s \<noteq> []"
  by (induction s) (auto split: list.splits)

lemma str_split_toLowerCase:
  "str_split CHR '','' (toLowerCase s) = map toLowerCase (str_split CHR '','' s)"
proof (induction s)
  case Nil
  then show ?case by (simp add: toLowerCase_def)
next
  case (Cons c cs)
  then show ?case
    using str_split_nonempty [of "CHR '',''" cs]
    by (cases "str_split CHR '','' cs") (auto simp: toLowerCase_def toLowerCase_char_comma)
qed

lemma dropWhile_toLowerCase:
  "dropWhile isWhiteSpace (toLowerCase s) = toLowerCase (dropWhile isWhiteSpace s)"
  by (induction s) (auto simp: toLowerCase_def isWhiteSpace_toLowerCase_char)

lemma trim_toLowerCase: "trim (toLowerCase s) = toLowerCase (trim s)"
proof -
  have r: "rev (toLowerCase t) = toLowerCase (rev t)" for t
    by (simp add: toLowerCase_def rev_map)
  show ?thesis
    by (simp add: trim_def dropWhile_toLowerCase r)
qed

lemma keywordArray_terms: "keywordArray kw = spec_terms kw"
  by (simp add: keywordArray_def spec_terms_def str_split_toLowerCase trim_toLowerCase)

section \<open>Facts about sorting\<close>

lemma mset_insort_cmp: "mset (insort_cmp cmp x xs) = add_mset x (mset xs)"
  by (induction xs) auto

lemma mset_sort_cmp: "mset (sort_cmp cmp xs) = mset xs"
  by (induction xs) (auto simp: sort_cmp_def mset_insort_cmp)

lemma set_sort_cmp: "set (sort_cmp cmp xs) = set xs"
  using mset_sort_cmp [of cmp xs] by (metis set_mset_mset)

lemma length_sort_cmp: "length (sort_cmp cmp xs) = length xs"
  using mset_sort_cmp [of cmp xs] by (metis size_mset)

section \<open>Social media service: processing\<close>

lemma fold_scoreKeyword:
  "fold (scoreKeyword p) ks acc = acc + (\<Sum>k\<leftarrow>ks. scoreKeyword p k 0)"
proof (induction ks arbitrary: acc)
  case Nil
  then show ?case by simp
next
  case (Cons k ks)
  have step: "scoreKeyword p k acc = acc + scoreKeyword p k 0"
    by (simp add: scoreKeyword_def Let_def split: option.splits)
  show ?case by (simp add: Cons.IH step)
qed

lemma assignPriority_spec: "assignPriority (toLowerCase text) = spec_priority text"
  by (simp add: assignPriority_def spec_priority_def urgent_set_def high_set_def medium_set_def
      is_substring_includes)

lemma scoreKeyword_spec: "scoreKeyword p t 0 = spec_term_score p t"
  by (auto simp: scoreKeyword_def spec_term_score_def is_substring_includes Let_def list_ex_iff
      split: option.splits)

lemma scoreKeyword_ignores_priority:
  "scoreKeyword (p\<lparr>priority := v\<rparr>) = scoreKeyword p"
  by (rule ext)+ (simp add: scoreKeyword_def)

lemma processPost_ignores_priority:
  "processPost now kw (p\<lparr>priority := v\<rparr>) = processPost now kw p"
  by (simp add: processPost_def calculateRelevanceScore_def scoreKeyword_ignores_priority
      split: option.splits)

lemma mock_social_processed:
  "map (\<lambda>q. (post_id q, priority q, relevance_score q))
     (processSocialMediaData now (mockSocialMediaData t0) None) =
   [(''3'', ''urgent'', 1), (''5'', ''urgent'', 1), (''1'', ''high'', 1),
    (''2'', ''high'', 1), (''4'', ''high'', 1), (''6'', ''high'', 1)]"
  by code_simp

text \<open>
  Claim C6. For every post the assigned priority is decided on the lower-cased post text,
  first match wins: a term of {urgent, sos, emergency, evacuate} gives \<open>urgent\<close>, else a term
  of {need, help, stranded, trapped} gives \<open>high\<close>, else a term of {offering, volunteer,
  shelter, donate} gives \<open>medium\<close>, else \<open>low\<close>. The processed list holds exactly the
  processed posts (the sort only permutes them), and a post that has both an urgent term and
  a high term is \<open>urgent\<close>.
\<close>

theorem priority_first_match_wins:
  "priority (processPost now kw p) = spec_priority (post p) \<and>
   mset (processSocialMediaData now data kw) = mset (map (processPost now kw) data) \<and>
   ((\<exists>u \<in> set urgent_set. is_substring u (toLowerCase (post p))) \<and>
    (\<exists>h \<in> set high_set. is_substring h (toLowerCase (post p)))
      \<longrightarrow> priority (processPost now kw p) = ''urgent'')"
  by (simp add: processPost_def assignPriority_spec processSocialMediaData_def mset_sort_cmp
      spec_priority_def)

theorem priority_first_match_wins_witness:
  "(\<exists>u \<in> set urgent_set. is_substring u (toLowerCase (post (mockSocialMediaData 0 ! 2)))) \<and>
   (\<exists>h \<in> set high_set. is_substring h (toLowerCase (post (mockSocialMediaData 0 ! 2)))) \<and>
   priority (processPost 0 None (mockSocialMediaData 0 ! 2)) = ''urgent''"
proof -
  have u: "\<exists>u \<in> set urgent_set. is_substring u (toLowerCase (post (mockSocialMediaData 0 ! 2)))"
    unfolding is_substring_includes by code_simp
  have h: "\<exists>h \<in> set high_set. is_substring h (toLowerCase (post (mockSocialMediaData 0 ! 2)))"
    unfolding is_substring_includes by code_simp
  from priority_first_match_wins [of 0 None "mockSocialMediaData 0 ! 2" "[]"] u h
  show ?thesis by blast
qed

text \<open>
  Claim C7. For a non-empty keywords string the relevance score is the sum, over the
  comma-separated, trimmed, lower-cased terms, of 3 if the term is a substring of the
  lower-cased post text, 2 if it is a substring of some lower-cased hashtag, and 1 if it is
  a substring of the lower-cased location when the post has one (the source tests
  \<open>post.location &&\<close>, so an empty location counts as absent). With absent or empty
  keywords the score is the baseline 1.
\<close>

theorem relevance_score_sum:
  "calculateRelevanceScore p None = 1 \<and>
   calculateRelevanceScore p (Some []) = 1 \<and>
   (kw \<noteq> [] \<longrightarrow>
      calculateRelevanceScore p (Some kw) = (\<Sum>t\<leftarrow>spec_terms kw. spec_term_score p t))"
  by (simp add: calculateRelevanceScore_def fold_scoreKeyword keywordArray_terms scoreKeyword_spec)

theorem relevance_score_sum_witness:
  "''Flood, manhattan,zzz'' \<noteq> [] \<and>
   (\<Sum>t\<leftarrow>spec_terms ''Flood, manhattan,zzz''. spec_term_score (mockSocialMediaData 0 ! 0) t) = 9"
proof -
  have c: "calculateRelevanceScore (mockSocialMediaData 0 ! 0) (Some ''Flood, manhattan,zzz'') = 9"
    by code_simp
  have n: "''Flood, manhattan,zzz'' \<noteq> []" by simp
  from relevance_score_sum [of "mockSocialMediaData 0 ! 0" "''Flood, manhattan,zzz''"] n c
  show ?thesis by simp
qed

text \<open>
  Claim C10. The assigned priority does not depend on the stored \<open>priority\<close> field: changing
  the stored value of a post does not change the priority of the processed post, two input
  lists that differ only in stored priorities are processed to the same output, and post 6
  of the mock set, stored as \<open>low\<close>, comes out as \<open>high\<close>.
\<close>

theorem assigned_priority_ignores_stored_priority:
  "priority (processPost now kw (p\<lparr>priority := v\<rparr>)) = priority (processPost now kw p) \<and>
   (map (\<lambda>p. p\<lparr>priority := []\<rparr>) ps = map (\<lambda>p. p\<lparr>priority := []\<rparr>) qs \<longrightarrow>
      processSocialMediaData now ps kw = processSocialMediaData now qs kw) \<and>
   map priority (filter (\<lambda>p. post_id p = ''6'') (mockSocialMediaData t0)) = [''low''] \<and>
   map priority (filter (\<lambda>q. post_id q = ''6'')
     (processSocialMediaData now (mockSocialMediaData t0) None)) = [''high'']"
proof -
  have a: "priority (processPost now kw (p\<lparr>priority := v\<rparr>)) = priority (processPost now kw p)"
    by (simp add: processPost_ignores_priority)
  have b: "processSocialMediaData now ps kw = processSocialMediaData now qs kw"
    if eq: "map (\<lambda>p. p\<lparr>priority := []\<rparr>) ps = map (\<lambda>p. p\<lparr>priority := []\<rparr>) qs"
  proof -
    have "map (processPost now kw) xs = map (processPost now kw) (map (\<lambda>p. p\<lparr>priority := []\<rparr>) xs)"
      for xs
      by (simp add: processPost_ignores_priority o_def)
    then have "map (processPost now kw) ps = map (processPost now kw) qs"
      using eq by metis
    then show ?thesis by (simp add: processSocialMediaData_def)
  qed
  have c: "map priority (filter (\<lambda>p. post_id p = ''6'') (mockSocialMediaData t0)) = [''low'']"
    by code_simp
  have d: "map priority (filter (\<lambda>q. post_id q = ''6'')
     (processSocialMediaData now (mockSocialMediaData t0) None)) = [''high'']"
    by code_simp
  from a b c d show ?thesis by blast
qed

theorem assigned_priority_ignores_stored_priority_witness:
  "map (\<lambda>p. p\<lparr>priority := []\<rparr>) [mockSocialMediaData 0 ! 5] =
     map (\<lambda>p. p\<lparr>priority := []\<rparr>) [(mockSocialMediaData 0 ! 5)\<lparr>priority := ''urgent''\<rparr>] \<and>
   processSocialMediaData 0 [mockSocialMediaData 0 ! 5] None =
     processSocialMediaData 0 [(mockSocialMediaData 0 ! 5)\<lparr>priority := ''urgent''\<rparr>] None"
proof -
  have h: "map (\<lambda>p. p\<lparr>priority := []\<rparr>) [mockSocialMediaData 0 ! 5] =
     map (\<lambda>p. p\<lparr>priority := []\<rparr>) [(mockSocialMediaData 0 ! 5)\<lparr>priority := ''urgent''\<rparr>]"
    by simp
  from assigned_priority_ignores_stored_priority
    [where ps = "[mockSocialMediaData 0 ! 5]"
       and qs = "[(mockSocialMediaData 0 ! 5)\<lparr>priority := ''urgent''\<rparr>]"
       and now = 0 and kw = None] h
  show ?thesis by blast
qed

text \<open>
  The "Earthquake felt..." post of the mock set is classified \<open>high\<close> and ranked fifth; only
  two posts are \<open>urgent\<close>.
\<close>

theorem mock_social_earthquake_not_urgent:
  "post (mockSocialMediaData 0 ! 3) =
     ''Earthquake felt in downtown area. Buildings shaking! #earthquake #help'' \<and>
   priority (processPost 0 None (mockSocialMediaData 0 ! 3)) = ''high'' \<and>
   map post_id (processSocialMediaData 0 (mockSocialMediaData 0) None) =
     [''3'', ''5'', ''1'', ''2'', ''4'', ''6''] \<and>
   map priority (processSocialMediaData 0 (mockSocialMediaData 0) None) =
     [''urgent'', ''urgent'', ''high'', ''high'', ''high'', ''high'']"
  by code_simp

text \<open>
  Claim C4, as the code has it. Processing the six mock posts with no keywords ranks
  "URGENT: Medical supplies..." (3) and "Fire spreading..." (5) first, both \<open>urgent\<close> and in
  their original relative order, then posts 1, 2, 4 and 6, all \<open>high\<close> and in their original
  relative order; every relevance score is the baseline 1. "Earthquake felt..." (4) is
  \<open>high\<close>: its text has "help" and no term of the urgent set.
\<close>

theorem mock_social_ranking:
  "map (\<lambda>q. (post_id q, priority q, relevance_score q))
     (processSocialMediaData now (mockSocialMediaData t0) None) =
   [(''3'', ''urgent'', 1), (''5'', ''urgent'', 1), (''1'', ''high'', 1),
    (''2'', ''high'', 1), (''4'', ''high'', 1), (''6'', ''high'', 1)] \<and>
   map post_id (mockSocialMediaData t0) = [''1'', ''2'', ''3'', ''4'', ''5'', ''6'']"
proof -
  have "map post_id (mockSocialMediaData t0) = [''1'', ''2'', ''3'', ''4'', ''5'', ''6'']"
    by (simp add: mockSocialMediaData_def)
  with mock_social_processed [of now t0] show ?thesis by simp
qed

section \<open>Official updates service: fetching, filtering, searching\<close>

lemma compareUpdates_ranked:
  "known_severity a \<Longrightarrow> known_severity b \<Longrightarrow>
     (sort_value (compareUpdates a b) \<le> 0) = ranked_before a b"
  unfolding known_severity_def compareUpdates_def ranked_before_def severity_rank_def
    severityOrder_def js_sub_def sort_value_def Let_def
  by auto

lemma ranked_before_total: "ranked_before a b \<or> ranked_before b a"
  unfolding ranked_before_def by auto

lemma ranked_before_trans: "ranked_before a b \<Longrightarrow> ranked_before b c \<Longrightarrow> ranked_before a c"
  unfolding ranked_before_def by auto

lemma set_insort_cmp: "set (insort_cmp cmp x xs) = insert x (set xs)"
  using mset_insort_cmp [of cmp x xs] by (metis set_mset_add_mset_insert set_mset_mset)

lemma sorted_insort_updates:
  "known_severity x \<Longrightarrow> \<forall>y \<in> set xs. known_severity y \<Longrightarrow> sorted_wrt ranked_before xs
     \<Longrightarrow> sorted_wrt ranked_before (insort_cmp compareUpdates x xs)"
proof (induction xs)
  case Nil
  then show ?case by simp
next
  case (Cons y ys)
  show ?case
  proof (cases "ranked_before x y")
    case True
    have "\<forall>z \<in> set ys. ranked_before x z"
      using True Cons.prems(3) ranked_before_trans by auto
    with True Cons.prems show ?thesis
      by (simp add: compareUpdates_ranked)
  next
    case False
    then have yx: "ranked_before y x" using ranked_before_total by blast
    have "sorted_wrt ranked_before (insort_cmp compareUpdates x ys)"
      using Cons by simp
    with False yx Cons.prems show ?thesis
      by (auto simp: compareUpdates_ranked set_insort_cmp)
  qed
qed

lemma sorted_sort_updates:
  "\<forall>y \<in> set xs. known_severity y \<Longrightarrow> sorted_wrt ranked_before (sort_cmp compareUpdates xs)"
proof (induction xs)
  case Nil
  then show ?case by (simp add: sort_cmp_def)
next
  case (Cons x xs)
  then have "sorted_wrt ranked_before (sort_cmp compareUpdates xs)" by simp
  moreover have "\<forall>y \<in> set (sort_cmp compareUpdates xs). known_severity y"
    using Cons.prems by (simp add: set_sort_cmp)
  ultimately have "sorted_wrt ranked_before (insort_cmp compareUpdates x (sort_cmp compareUpdates xs))"
    using Cons.prems by (intro sorted_insort_updates) auto
  then show ?case by (simp add: sort_cmp_def)
qed

lemma mock_known_severity: "\<forall>u \<in> set (mockOfficialUpdates t0). known_severity u"
  by (simp add: mockOfficialUpdates_def known_severity_def)

lemma aggregated_subset: "set (aggregated t0 sources) \<subseteq> set (mockOfficialUpdates t0)"
  by (auto simp: aggregated_def)

lemma scrapers_total:
  "scrapeFEMAUpdates raised t0 = Inr (filter (\<lambda>u. source u = ''FEMA'') (mockOfficialUpdates t0))"
  "scrapeRedCrossUpdates raised t0 = Inr (filter (\<lambda>u. source u = ''Red Cross'') (mockOfficialUpdates t0))"
  "scrapeNYCEmergencyUpdates raised t0 =
     Inr (filter (\<lambda>u. source u = ''NYC Emergency Management'') (mockOfficialUpdates t0))"
  "scrapeWeatherServiceUpdates raised t0 =
     Inr (filter (\<lambda>u. source u = ''National Weather Service'') (mockOfficialUpdates t0))"
  unfolding scrapeFEMAUpdates_def scrapeRedCrossUpdates_def
      scrapeNYCEmergencyUpdates_def scrapeWeatherServiceUpdates_def try_catch_def
  by (cases raised; simp)+

lemma pushWhen_Inr: "pushWhen c (Inr us) acc = Inr (acc @ (if c then us else []))"
  by (simp add: pushWhen_def bind_result_def)

lemma bind_result_Inr: "bind_result (Inr v) f = f v"
  by (simp add: bind_result_def)

lemma aggregated_unfold:
  "aggregated t0 sources =
    ((([] @ (if ''all'' \<in> set sources \<or> ''fema'' \<in> set sources
             then filter (\<lambda>u. source u = ''FEMA'') (mockOfficialUpdates t0) else [])) @
      (if ''all'' \<in> set sources \<or> ''redcross'' \<in> set sources
       then filter (\<lambda>u. source u = ''Red Cross'') (mockOfficialUpdates t0) else [])) @
      (if ''all'' \<in> set sources \<or> ''nyc'' \<in> set sources
       then filter (\<lambda>u. source u = ''NYC Emergency Management'') (mockOfficialUpdates t0) else [])) @
      (if ''all'' \<in> set sources \<or> ''weather'' \<in> set sources
       then filter (\<lambda>u. source u = ''National Weather Service'') (mockOfficialUpdates t0) else [])"
  unfolding aggregated_def by (simp split del: if_split)

lemma fetchOfficialUpdates_eq:
  "fetchOfficialUpdates faults t0 sources =
     Inr (if aggregated t0 sources = [] then mockOfficialUpdates t0
          else sort_cmp compareUpdates (aggregated t0 sources))"
  unfolding fetchOfficialUpdates_def scrapers_total pushWhen_Inr bind_result_Inr Let_def
    aggregated_unfold [symmetric]
  by (simp add: try_catch_def)

text \<open>
  With every source requested (\<open>sources = ['all']\<close>) the fetcher's result is not the
  aggregate in the order of aggregation: the Weather Service record, aggregated last,
  comes first.
\<close>

theorem fetchOfficialUpdates_unsorted_counterexample:
  "fetchOfficialUpdates \<lparr>fema_raises = None, redcross_raises = None, nyc_raises = None,
       weather_raises = None\<rparr> 86400000 [''all'']
     \<noteq> Inr (aggregated 86400000 [''all'']) \<and>
   map uid (aggregated 86400000 [''all'']) = [''1'', ''3'', ''2'', ''4''] \<and>
   map_sum id (map uid) (fetchOfficialUpdates \<lparr>fema_raises = None, redcross_raises = None,
       nyc_raises = None, weather_raises = None\<rparr> 86400000 [''all''])
     = Inr [''4'', ''1'', ''2'', ''3'']"
  by code_simp

text \<open>
  Claim C3, as the code has it. \<open>fetchOfficialUpdates\<close> orders its result itself: when the
  aggregate of the requested sources is not empty, the result is a permutation of the
  aggregate in which a higher severity comes first and, within one severity, the newer
  record comes first; when the aggregate is empty the result is the mock set as it stands.
\<close>

theorem fetchOfficialUpdates_sorts:
  "\<exists>r. fetchOfficialUpdates faults t0 sources = Inr r \<and>
       ((aggregated t0 sources = [] \<and> r = mockOfficialUpdates t0) \<or>
        (aggregated t0 sources \<noteq> [] \<and> sorted_wrt ranked_before r \<and>
         mset r = mset (aggregated t0 sources)))"
proof -
  have "\<forall>u \<in> set (aggregated t0 sources). known_severity u"
    using aggregated_subset [of t0 sources] mock_known_severity [of t0] by blast
  then have "sorted_wrt ranked_before (sort_cmp compareUpdates (aggregated t0 sources))"
    by (rule sorted_sort_updates)
  then show ?thesis
    by (simp add: fetchOfficialUpdates_eq mset_sort_cmp)
qed

theorem fetchOfficialUpdates_sorts_witness:
  "aggregated 86400000 [''all''] \<noteq> [] \<and>
   (\<exists>r. fetchOfficialUpdates \<lparr>fema_raises = None, redcross_raises = None, nyc_raises = None,
            weather_raises = None\<rparr> 86400000 [''all''] = Inr r \<and>
        sorted_wrt ranked_before r \<and> mset r = mset (aggregated 86400000 [''all'']))"
proof -
  have n: "aggregated 86400000 [''all''] \<noteq> []" by code_simp
  from fetchOfficialUpdates_sorts [of "\<lparr>fema_raises = None, redcross_raises = None,
      nyc_raises = None, weather_raises = None\<rparr>" 86400000 "[''all'']"] n
  show ?thesis by blast
qed

text \<open>
  Claim C9. \<open>fetchOfficialUpdates\<close> never fails: whatever is thrown inside a scraper's
  \<open>try\<close> block, that scraper answers with its source's mock records and the result of the
  fetcher is the one without any fault. The result is a non-empty list: when the aggregate
  of the requested sources is not empty it holds exactly the mock records of the requested
  sources (the records of \<open>aggregated\<close>, each as often as there), and it is the mock set of
  five records whenever the aggregate is empty.
\<close>

theorem fetchOfficialUpdates_never_fails:
  "(\<exists>r. fetchOfficialUpdates faults t0 sources = Inr r \<and> r \<noteq> [] \<and>
        (aggregated t0 sources = [] \<longrightarrow> r = mockOfficialUpdates t0) \<and>
        (aggregated t0 sources \<noteq> [] \<longrightarrow> mset r = mset (aggregated t0 sources))) \<and>
   length (mockOfficialUpdates t0) = 5 \<and>
   scrapeFEMAUpdates (Some e) t0 =
     Inr (filter (\<lambda>u. source u = ''FEMA'') (mockOfficialUpdates t0)) \<and>
   scrapeRedCrossUpdates (Some e) t0 =
     Inr (filter (\<lambda>u. source u = ''Red Cross'') (mockOfficialUpdates t0)) \<and>
   scrapeNYCEmergencyUpdates (Some e) t0 =
     Inr (filter (\<lambda>u. source u = ''NYC Emergency Management'') (mockOfficialUpdates t0)) \<and>
   scrapeWeatherServiceUpdates (Some e) t0 =
     Inr (filter (\<lambda>u. source u = ''National Weather Service'') (mockOfficialUpdates t0)) \<and>
   fetchOfficialUpdates faults t0 sources =
     fetchOfficialUpdates \<lparr>fema_raises = None, redcross_raises = None, nyc_raises = None,
       weather_raises = None\<rparr> t0 sources"
proof -
  have m: "mockOfficialUpdates t0 \<noteq> []" "length (mockOfficialUpdates t0) = 5"
    by (simp_all add: mockOfficialUpdates_def)
  have s: "sort_cmp compareUpdates (aggregated t0 sources) \<noteq> []"
    if "aggregated t0 sources \<noteq> []"
    using that length_sort_cmp [of compareUpdates "aggregated t0 sources"] by auto
  show ?thesis
    using m s by (simp add: fetchOfficialUpdates_eq scrapers_total mset_sort_cmp)
qed

text \<open>
  The theorem with FEMA and the Weather Service requested and the FEMA scraper failing:
  the result holds the FEMA record and the Weather Service record, ranked 4, 1. With an
  unknown source only, the aggregate is empty and the result is the mock set.
\<close>

theorem fetchOfficialUpdates_never_fails_witness:
  "aggregated 86400000 [''fema'', ''weather''] \<noteq> [] \<and>
   map uid (aggregated 86400000 [''fema'', ''weather'']) = [''1'', ''4''] \<and>
   (\<exists>r. fetchOfficialUpdates \<lparr>fema_raises = Some (Error ''timeout''), redcross_raises = None,
            nyc_raises = None, weather_raises = None\<rparr> 86400000 [''fema'', ''weather''] = Inr r \<and>
        r \<noteq> [] \<and> mset r = mset (aggregated 86400000 [''fema'', ''weather''])) \<and>
   map_sum id (map uid)
     (fetchOfficialUpdates \<lparr>fema_raises = Some (Error ''timeout''), redcross_raises = None,
        nyc_raises = None, weather_raises = None\<rparr> 86400000 [''fema'', ''weather''])
     = Inr [''4'', ''1''] \<and>
   aggregated 0 [''unknown''] = [] \<and>
   fetchOfficialUpdates \<lparr>fema_raises = Some (Error ''timeout''), redcross_raises = None,
       nyc_raises = None, weather_raises = None\<rparr> 0 [''unknown''] = Inr (mockOfficialUpdates 0)"
proof -
  have n: "aggregated 86400000 [''fema'', ''weather''] \<noteq> []"
    by code_simp
  have i: "map uid (aggregated 86400000 [''fema'', ''weather'']) = [''1'', ''4'']"
    by code_simp
  have c: "map_sum id (map uid)
     (fetchOfficialUpdates \<lparr>fema_raises = Some (Error ''timeout''), redcross_raises = None,
        nyc_raises = None, weather_raises = None\<rparr> 86400000 [''fema'', ''weather''])
     = Inr [''4'', ''1'']"
    by code_simp
  have a: "aggregated 0 [''unknown''] = []"
    by code_simp
  from fetchOfficialUpdates_never_fails [of "\<lparr>fema_raises = Some (Error ''timeout''),
      redcross_raises = None, nyc_raises = None, weather_raises = None\<rparr>" 86400000
      "[''fema'', ''weather'']"] n
  have p: "\<exists>r. fetchOfficialUpdates \<lparr>fema_raises = Some (Error ''timeout''),
            redcross_raises = None, nyc_raises = None, weather_raises = None\<rparr> 86400000
            [''fema'', ''weather''] = Inr r \<and>
        r \<noteq> [] \<and> mset r = mset (aggregated 86400000 [''fema'', ''weather''])"
    by blast
  from fetchOfficialUpdates_never_fails [of "\<lparr>fema_raises = Some (Error ''timeout''),
      redcross_raises = None, nyc_raises = None, weather_raises = None\<rparr>" 0 "[''unknown'']"] a
  have q: "fetchOfficialUpdates \<lparr>fema_raises = Some (Error ''timeout''), redcross_raises = None,
       nyc_raises = None, weather_raises = None\<rparr> 0 [''unknown''] = Inr (mockOfficialUpdates 0)"
    by auto
  from n i p c a q show ?thesis by blast
qed

text \<open>
  Claim C5. \<open>searchOfficialUpdates\<close> keeps, in order, exactly the records for which some
  comma-separated, trimmed, lower-cased term is a substring of the lower-cased
  \<open>title + " " + content\<close>; with absent or empty keywords it returns its input.
\<close>

theorem searchOfficialUpdates_spec:
  "searchOfficialUpdates us None = us \<and>
   searchOfficialUpdates us (Some []) = us \<and>
   (kw \<noteq> [] \<longrightarrow>
      searchOfficialUpdates us (Some kw) =
        filter (\<lambda>u. \<exists>t \<in> set (spec_terms kw).
                      is_substring t (toLowerCase (title u @ '' '' @ content u))) us)"
  by (simp add: searchOfficialUpdates_def keywordArray_terms is_substring_includes list_ex_iff)

theorem searchOfficialUpdates_spec_witness:
  "''Water, VOLUNTEER'' \<noteq> [] \<and>
   map uid (filter (\<lambda>u. \<exists>t \<in> set (spec_terms ''Water, VOLUNTEER'').
                      is_substring t (toLowerCase (title u @ '' '' @ content u)))
              (mockOfficialUpdates 0)) = [''2'', ''3'']"
proof -
  have c: "map uid (searchOfficialUpdates (mockOfficialUpdates 0) (Some ''Water, VOLUNTEER''))
           = [''2'', ''3'']"
    by code_simp
  have n: "''Water, VOLUNTEER'' \<noteq> []" by simp
  from searchOfficialUpdates_spec [of "mockOfficialUpdates 0" "''Water, VOLUNTEER''"] n c
  show ?thesis by simp
qed

lemma fieldMatches_spec:
  "c \<noteq> [] \<Longrightarrow> fieldMatches field c = equals_ignoring_case field (Some c)"
  by (cases field) (auto simp: fieldMatches_def equals_ignoring_case_def toLowerCase_def)

text \<open>
  Claim C8. \<open>filterOfficialUpdates\<close> keeps, in order, exactly the records whose category
  equals the requested category ignoring case when a category is given, and whose severity
  equals the requested severity ignoring case when a severity is given (a value is given
  when it is a non-empty string, as the source tests \<open>if (category)\<close>); with no filters it
  returns its input.
\<close>

theorem filterOfficialUpdates_spec:
  "filterOfficialUpdates us cat sev =
     filter (\<lambda>u. (given cat \<longrightarrow> equals_ignoring_case (category u) cat) \<and>
                 (given sev \<longrightarrow> equals_ignoring_case (severity u) sev)) us \<and>
   filterOfficialUpdates us None None = us"
proof -
  have "filterOfficialUpdates us cat sev =
     filter (\<lambda>u. (given cat \<longrightarrow> equals_ignoring_case (category u) cat) \<and>
                 (given sev \<longrightarrow> equals_ignoring_case (severity u) sev)) us"
    by (cases cat; cases sev)
      (auto simp: filterOfficialUpdates_def given_def fieldMatches_spec Let_def
        intro!: filter_cong)
  moreover have "filterOfficialUpdates us None None = us"
    by (simp add: filterOfficialUpdates_def)
  ultimately show ?thesis by simp
qed

theorem filterOfficialUpdates_spec_witness:
  "given (Some ''SHELTER'') \<and> \<not> given None \<and>
   map uid (filter (\<lambda>u. (given (Some ''SHELTER'') \<longrightarrow>
                           equals_ignoring_case (category u) (Some ''SHELTER'')) \<and>
                        (given None \<longrightarrow> equals_ignoring_case (severity u) None))
              (mockOfficialUpdates 0)) = [''1'']"
proof -
  have c: "map uid (filterOfficialUpdates (mockOfficialUpdates 0) (Some ''SHELTER'') None) = [''1'']"
    by code_simp
  have g: "given (Some ''SHELTER'')" "\<not> given None"
    by (simp_all add: given_def)
  from filterOfficialUpdates_spec [of "mockOfficialUpdates 0" "Some ''SHELTER''" None] c g
  show ?thesis by simp
qed

lemma latin1_keywords_examples:
  "map uid (searchOfficialUpdates (mockOfficialUpdates 0) (Some (CHR 0xA0 # ''water''))) = [''2'']"
  "calculateRelevanceScore (mockSocialMediaData 0 ! 0) (Some (CHR 0xA0 # ''flood'')) = 5"
  "fieldMatches (Some (CHR 0xE9 # ''vac'')) (CHR 0xC9 # ''VAC'')"
  by code_simp+

section \<open>Controllers: limit and cache\<close>

lemma provider_stubs_ignore_count:
  "fetchTwitterData t0 query cnt = fetchMockSocialMediaData t0 query None"
  "fetchBlueskyData t0 query cnt = fetchMockSocialMediaData t0 query None"
  by (simp_all add: fetchTwitterData_def fetchBlueskyData_def try_catch_def split: sum.splits)

lemma fetchSocialMediaData_limit_irrelevant:
  "fetchSocialMediaData env t0 now keywords disasterType limit =
   fetchSocialMediaData env t0 now keywords disasterType limit'"
  unfolding fetchSocialMediaData_def provider_stubs_ignore_count ..

text \<open>
  Claim C1, at an input where the code departs from it. A social-media request with
  \<open>limit = 2\<close> and no other parameter is answered with all six processed mock posts:
  \<open>fetchSocialMediaData\<close> hands \<open>limit\<close> to the provider stubs only, which ignore it, and
  nothing takes a prefix of the processed list.
\<close>

theorem getSocialMediaReports_limit_not_applied:
  "(case res_body (snd (getSocialMediaReports
        \<lparr>TWITTER_BEARER_TOKEN = False, BLUESKY_ACCESS_TOKEN = False\<rparr> 0 0
        \<lparr>cache = (\<lambda>key. None), emitted = []\<rparr>
        \<lparr>sr_id = ''d1'', sr_keywords = None, sr_limit = Some 2, sr_disaster_type = None\<rparr>)) of
      SocialEnvelope e \<Rightarrow> (total_posts e, map post_id (posts e))
    | _ \<Rightarrow> (0, [])) = (6, [''3'', ''5'', ''1'', ''2'', ''4'', ''6'']) \<and>
   map_sum id (map post_id)
     (fetchSocialMediaData \<lparr>TWITTER_BEARER_TOKEN = True, BLUESKY_ACCESS_TOKEN = True\<rparr>
        0 0 None None 2) = Inr [''3'', ''5'', ''1'', ''2'', ''4'', ''6'']"
  by code_simp

lemma getOfficialUpdates_limit_example:
  "(case res_body (snd (getOfficialUpdates
        \<lparr>fema_raises = None, redcross_raises = None, nyc_raises = None, weather_raises = None\<rparr>
        86400000 86400000
        \<lparr>cache = (\<lambda>key. None), emitted = []\<rparr>
        \<lparr>or_id = ''d1'', or_sources = None, or_category = None, or_severity = None,
         or_keywords = None, or_limit = Some 2\<rparr>)) of
      OfficialEnvelope e \<Rightarrow> (total_updates e, map uid (updates e))
    | _ \<Rightarrow> (0, [])) = (2, [''4'', ''1''])"
  by code_simp

text \<open>
  Claim C2, at an input where the code departs from it. \<open>getSocialMediaReports\<close> stores
  the bare array of posts in the cache and answers the first call with the envelope, so
  the second call with the same key is served from the cache (nothing is emitted again)
  with a body that is the array, not the envelope of the first call.
\<close>

theorem getSocialMediaReports_cached_body_differs:
  "(let env = \<lparr>TWITTER_BEARER_TOKEN = False, BLUESKY_ACCESS_TOKEN = False\<rparr>;
        req = \<lparr>sr_id = ''d1'', sr_keywords = None, sr_limit = None,
               sr_disaster_type = Some ''fire''\<rparr>;
        first = getSocialMediaReports env 0 0 \<lparr>cache = (\<lambda>key. None), emitted = []\<rparr> req;
        second = getSocialMediaReports env 0 0 (fst first) req
    in res_body (snd first) \<noteq> res_body (snd second) \<and>
       (case res_body (snd first) of
          SocialEnvelope e \<Rightarrow> res_body (snd second) = PostsArray (posts e) \<and> total_posts e = 1
        | _ \<Rightarrow> False) \<and>
       emitted (fst second) = emitted (fst first))"
  by code_simp

lemma getOfficialUpdates_cached_body_same:
  "(let faults = \<lparr>fema_raises = None, redcross_raises = None, nyc_raises = None,
                  weather_raises = None\<rparr>;
        req = \<lparr>or_id = ''d1'', or_sources = Some ''fema, nyc'', or_category = None,
               or_severity = None, or_keywords = None, or_limit = None\<rparr>;
        first = getOfficialUpdates faults 86400000 86400000
                  \<lparr>cache = (\<lambda>key. None), emitted = []\<rparr> req;
        second = getOfficialUpdates faults 86400000 86460000 (fst first) req
    in res_body (snd first) = res_body (snd second) \<and>
       (case res_body (snd first) of
          OfficialEnvelope e \<Rightarrow> map uid (updates e) = [''1'', ''2'']
        | _ \<Rightarrow> False))"
  by code_simp

end
